theory Spec2Isabelle
  imports Complex_Main "HOL-Library.FSet" "HOL-Library.Sublist" "HOL-Library.Multiset"
begin

section \<open>Strings of the program\<close>

text \<open>
  A JavaScript string is a sequence of UTF-16 code units. The model reads a \<^typ>\<open>char\<close>
  as a code unit below 256 (the Latin-1 range), where the case conversion of
  \<^verbatim>\<open>String.prototype.toLowerCase\<close> acts unit by unit: the letters A-Z and the
  accented capitals U+00C0-U+00DE other than the multiplication sign U+00D7 move up
  by 32, every other unit stays. Strings with code units from 256 on are outside the
  model.
\<close>

definition has_lower_case :: "char \<Rightarrow> bool" where
  "has_lower_case c =
     (let n = (of_char c :: nat)
      in (65 \<le> n \<and> n \<le> 90) \<or> (192 \<le> n \<and> n \<le> 222 \<and> n \<noteq> 215))"

definition lower_char :: "char \<Rightarrow> char" where
  "lower_char c = (if has_lower_case c then char_of ((of_char c :: nat) + 32) else c)"

definition toLowerCase :: "string \<Rightarrow> string" where
  "toLowerCase s = map lower_char s"

text \<open>
  The class \<^verbatim>\<open>\s\<close> of a regular expression: tab, line feed, vertical tab, form
  feed, carriage return, space and the no-break space U+00A0. The class \<^verbatim>\<open>\d\<close>
  (without the unicode flag): the ten ASCII digits.
\<close>

definition is_space :: "char \<Rightarrow> bool" where
  "is_space c = (let n = (of_char c :: nat) in (9 \<le> n \<and> n \<le> 13) \<or> n = 32 \<or> n = 160)"

definition is_digit :: "char \<Rightarrow> bool" where
  "is_digit c = (let n = (of_char c :: nat) in 48 \<le> n \<and> n \<le> 57)"

text \<open>
  \<^verbatim>\<open>s.split(/\s+/)\<close>: the separators are the maximal runs of white space. A run at
  the start or at the end of the string leaves an empty piece there, and the empty
  string splits into one empty piece. A white-space unit that is followed by another
  one belongs to the same separator and closes no piece of its own; any other unit is
  put in front of the first piece of the rest.
\<close>

fun split_ws :: "string \<Rightarrow> string list" where
  "split_ws [] = [[]]"
| "split_ws [c] = (if is_space c then [[], []] else [[c]])"
| "split_ws (c # d # cs) =
     (if is_space c then
        (if is_space d then split_ws (d # cs) else [] # split_ws (d # cs))
      else
        (case split_ws (d # cs) of
           [] \<Rightarrow> [[c]]
         | t # ts \<Rightarrow> (c # t) # ts))"

text \<open>\<^verbatim>\<open>Boolean\<close> on a string: the empty string is the only falsy one.\<close>

definition Boolean :: "string \<Rightarrow> bool" where
  "Boolean s = (s \<noteq> [])"

text \<open>\<^verbatim>\<open>haystack.includes(term)\<close>: the term occurs at some position of the haystack.\<close>

fun includes_str :: "string \<Rightarrow> string \<Rightarrow> bool" where
  "includes_str [] term = (term = [])"
| "includes_str (c # cs) term = (prefix term (c # cs) \<or> includes_str cs term)"

text \<open>\<^verbatim>\<open>array.join(sep)\<close> on an array of strings.\<close>

fun join :: "string \<Rightarrow> string list \<Rightarrow> string" where
  "join sep [] = []"
| "join sep [x] = x"
| "join sep (x # y # ys) = x @ sep @ join sep (y # ys)"

text \<open>
  A field of the JSON dataset that may be missing: the property is absent
  (\<^verbatim>\<open>undefined\<close>), holds \<^verbatim>\<open>null\<close>, or holds a string. A template literal
  turns the first two into the words \<^verbatim>\<open>undefined\<close> and \<^verbatim>\<open>null\<close>.
\<close>

datatype jsval = Undefined | Null | Str string

fun template :: "jsval \<Rightarrow> string" where
  "template Undefined = ''undefined''"
| "template Null = ''null''"
| "template (Str s) = s"

section \<open>Data model\<close>

record Link =
  label :: string
  url :: string

record Section =
  code :: string
  title :: string
  status :: jsval
  description :: jsval
  links :: "Link list"

record Category =
  code :: string
  title :: string
  description :: jsval
  links :: "Link list"
  sections :: "Section list"

text \<open>
  The object \<^verbatim>\<open>{...category, sections, categoryMatches}\<close> that \<^verbatim>\<open>filterData\<close>
  builds: a category with one more field.
\<close>

record FilteredCategory = Category +
  categoryMatches :: bool

text \<open>
  The global \<^verbatim>\<open>state\<close> object. The pin set is a \<^verbatim>\<open>Set\<close> of section keys; its
  insertion order is not observed by the functions below, so it is a finite set.
\<close>

record state =
  categories :: "Category list"
  searchTerm :: string
  statusFilter :: string
  categoryFilter :: string
  showPinnedOnly :: bool
  pinned :: "string fset"

section \<open>Year extraction and section keys\<close>

text \<open>
  \<^verbatim>\<open>/20\d{2}/.exec(text)\<close>: the scan tries each start position from the left and
  returns the four code units of the first position where the pattern fits.
\<close>

fun exec_year :: "string \<Rightarrow> string option" where
  "exec_year (a # b # c # d # rest) =
     (if a = CHR ''2'' \<and> b = CHR ''0'' \<and> is_digit c \<and> is_digit d then Some [a, b, c, d]
      else exec_year (b # c # d # rest))"
| "exec_year _ = None"

text \<open>
  \<^verbatim>\<open>extractYear(text = '')\<close>: the default value replaces \<^verbatim>\<open>undefined\<close> only;
  \<^verbatim>\<open>exec\<close> converts any other argument to a string, so \<^verbatim>\<open>null\<close> is scanned as
  the word \<^verbatim>\<open>null\<close>. The result \<^verbatim>\<open>null\<close> is \<^term>\<open>None\<close>.
\<close>

definition extractYear :: "jsval \<Rightarrow> string option" where
  "extractYear text =
     (let text' = (case text of Undefined \<Rightarrow> Str [] | _ \<Rightarrow> text)
      in exec_year (template text'))"

definition sectionKey :: "string \<Rightarrow> string \<Rightarrow> string" where
  "sectionKey categoryCode sectionCode = categoryCode @ ''-'' @ sectionCode"

section \<open>The filter\<close>

definition searchTerms :: "state \<Rightarrow> string list" where
  "searchTerms st = filter Boolean (split_ws (toLowerCase (searchTerm st)))"

definition matchesSearch :: "string list \<Rightarrow> string \<Rightarrow> bool" where
  "matchesSearch terms haystack = list_all (\<lambda>term. includes_str haystack term) terms"

definition categorySearchText :: "Category \<Rightarrow> string" where
  "categorySearchText category =
     toLowerCase (Category.code category @ '' '' @ Category.title category @ '' ''
       @ template (Category.description category) @ '' ''
       @ join '' '' (map label (Category.links category)))"

definition sectionHaystack :: "Category \<Rightarrow> Section \<Rightarrow> string" where
  "sectionHaystack category section =
     toLowerCase (Category.code category @ '' '' @ Category.title category @ '' ''
       @ Section.code section @ '' '' @ Section.title section @ '' ''
       @ template (status section) @ '' '' @ template (Section.description section) @ '' ''
       @ join '' '' (map (\<lambda>link. label link @ '' '' @ url link) (Section.links section)))"

text \<open>
  The last test of the callback of \<^verbatim>\<open>category.sections.filter\<close>: without search
  terms the section passes, otherwise its haystack has to match them.
\<close>

definition searchPredicate :: "state \<Rightarrow> Category \<Rightarrow> Section \<Rightarrow> bool" where
  "searchPredicate st category section =
     (if searchTerms st = [] then True
      else matchesSearch (searchTerms st) (sectionHaystack category section))"

text \<open>The callback of \<^verbatim>\<open>category.sections.filter\<close>, one early return per test.\<close>

definition keepSection :: "state \<Rightarrow> Category \<Rightarrow> Section \<Rightarrow> bool" where
  "keepSection st category section =
     (if categoryFilter st \<noteq> ''all'' \<and> categoryFilter st \<noteq> Category.code category then False
      else if showPinnedOnly st
              \<and> \<not> sectionKey (Category.code category) (Section.code section) |\<in>| pinned st
           then False
      else if statusFilter st \<noteq> ''all'' \<and> extractYear (status section) \<noteq> Some (statusFilter st)
           then False
      else searchPredicate st category section)"

text \<open>The callback of \<^verbatim>\<open>state.categories.map\<close>.\<close>

definition filterCategory :: "state \<Rightarrow> Category \<Rightarrow> FilteredCategory" where
  "filterCategory st category =
     (let categoryMatches' =
            (if searchTerms st \<noteq> [] then matchesSearch (searchTerms st) (categorySearchText category)
             else True);
          sections' = filter (keepSection st category) (sections category)
      in Category.extend (category\<lparr>sections := sections'\<rparr>) \<lparr>categoryMatches = categoryMatches'\<rparr>)"

definition filterData :: "state \<Rightarrow> FilteredCategory list" where
  "filterData st =
     filter (\<lambda>category. sections category \<noteq> [] \<or> categoryMatches category)
       (map (filterCategory st) (categories st))"

definition shouldAutoOpenCategory :: "state \<Rightarrow> FilteredCategory \<Rightarrow> bool" where
  "shouldAutoOpenCategory st category =
     (if categoryFilter st \<noteq> ''all'' then categoryFilter st = Category.code category
      else if showPinnedOnly st then
        list_ex (\<lambda>section. sectionKey (Category.code category) (Section.code section) |\<in>| pinned st)
          (sections category)
      else if searchTerm st \<noteq> [] then sections category \<noteq> [] \<or> categoryMatches category
      else False)"

section \<open>JavaScript numbers\<close>

text \<open>
  A Number is a double: a finite one, given by the rational it denotes, one of the two
  infinities, or NaN. The sign of a zero is not represented.
\<close>

datatype number = Num rat | Infinity | NegInfinity | NaN

text \<open>
  Rounding a positive quotient \<open>n / d\<close> to a double. The quotient is first scaled
  by powers of two until it lies between \<open>2^52\<close> and \<open>2^53\<close>: \<open>halve_to\<close> doubles
  the denominator while the quotient is \<open>2^53\<close> or more, \<open>double_to\<close> doubles the
  numerator while the quotient is below \<open>2^52\<close>, but not past the exponent \<open>-1074\<close>
  of the subnormal doubles. Both return the scaled quotient and the exponent \<open>e\<close>
  with \<open>n / d = scaled * 2^e\<close>.
\<close>

function halve_to :: "int \<Rightarrow> int \<Rightarrow> int \<Rightarrow> int \<times> int \<times> int" where
  "halve_to n d e =
     (if 0 < d \<and> 2 ^ 53 * d \<le> n then halve_to n (2 * d) (e + 1) else (n, d, e))"
  by pat_completeness auto
termination
  by (relation "measure (\<lambda>(n, d, e). nat (n - 2 ^ 53 * d + 1))") auto

function double_to :: "int \<Rightarrow> int \<Rightarrow> int \<Rightarrow> int \<times> int \<times> int" where
  "double_to n d e =
     (if n < 2 ^ 52 * d \<and> - 1074 < e then double_to (2 * n) d (e - 1) else (n, d, e))"
  by pat_completeness auto
termination
  by (relation "measure (\<lambda>(n, d, e). nat (e + 1074))") auto

declare halve_to.simps [simp del] double_to.simps [simp del]

text \<open>The integer nearest to \<open>n / d\<close> for positive \<open>d\<close>, a tie going to the even one.\<close>

definition round_half_even :: "int \<Rightarrow> int \<Rightarrow> int" where
  "round_half_even n d =
     (let f = n div d; r = n mod d
      in if 2 * r < d then f else if d < 2 * r then f + 1 else if even f then f else f + 1)"

definition pow2 :: "int \<Rightarrow> rat" where
  "pow2 e = (if 0 \<le> e then 2 ^ nat e else 1 / 2 ^ nat (- e))"

definition infinity_of :: "bool \<Rightarrow> number" where
  "infinity_of positive = (if positive then Infinity else NegInfinity)"

text \<open>
  The double nearest to a rational (IEEE 754 binary64, round to nearest, ties to
  even): the scaled quotient is rounded to an integer \<open>m\<close> of at most 53 bits and the
  result is \<open>m * 2^e\<close>. The largest double is \<open>(2^53 - 1) * 2^971\<close>; a result beyond
  it is an infinity.
\<close>

definition to_double :: "rat \<Rightarrow> number" where
  "to_double q =
     (if q = 0 then Num 0
      else
        (case quotient_of \<bar>q\<bar> of (n, d) \<Rightarrow>
         case halve_to n d 0 of (n1, d1, e1) \<Rightarrow>
         case double_to n1 d1 e1 of (n2, d2, e) \<Rightarrow>
           let m = round_half_even n2 d2
           in if 971 < e \<or> (e = 971 \<and> 2 ^ 53 \<le> m) then infinity_of (0 < q)
              else Num ((if 0 < q then 1 else - 1) * of_int m * pow2 e)))"

text \<open>
  The operators \<^verbatim>\<open>/\<close> and \<^verbatim>\<open>*\<close> on Numbers: the exact result of finite operands
  is rounded; zero divided by zero is NaN, any other finite number divided by zero
  is an infinity.
\<close>

fun divide_number :: "number \<Rightarrow> number \<Rightarrow> number" where
  "divide_number (Num a) (Num b) =
     (if b = 0 then (if a = 0 then NaN else infinity_of (0 < a)) else to_double (a / b))"
| "divide_number (Num a) Infinity = Num 0"
| "divide_number (Num a) NegInfinity = Num 0"
| "divide_number Infinity (Num b) = infinity_of (0 \<le> b)"
| "divide_number NegInfinity (Num b) = infinity_of (b < 0)"
| "divide_number _ _ = NaN"

fun times_number :: "number \<Rightarrow> number \<Rightarrow> number" where
  "times_number (Num a) (Num b) = to_double (a * b)"
| "times_number (Num a) Infinity = (if a = 0 then NaN else infinity_of (0 < a))"
| "times_number (Num a) NegInfinity = (if a = 0 then NaN else infinity_of (a < 0))"
| "times_number Infinity (Num b) = (if b = 0 then NaN else infinity_of (0 < b))"
| "times_number NegInfinity (Num b) = (if b = 0 then NaN else infinity_of (b < 0))"
| "times_number Infinity Infinity = Infinity"
| "times_number Infinity NegInfinity = NegInfinity"
| "times_number NegInfinity Infinity = NegInfinity"
| "times_number NegInfinity NegInfinity = Infinity"
| "times_number _ _ = NaN"

section \<open>Global totals\<close>

record totals =
  totalSections :: nat
  allocatedSections :: nat
  pinnedCount :: nat
  allocationProgress :: number

text \<open>
  The two nested \<^verbatim>\<open>forEach\<close> loops of \<^verbatim>\<open>computeGlobalTotals\<close>, the two counters
  passed along as a pair. The counters are natural numbers: below \<open>2^53\<close> adding 1
  to a double is exact, and a count is the double that denotes it. The progress is
  computed on doubles, as \<^verbatim>\<open>(allocatedSections / totalSections) * 100\<close>, behind the
  test of \<^verbatim>\<open>totalSections\<close>.
\<close>

definition countSection :: "Section \<Rightarrow> nat \<times> nat \<Rightarrow> nat \<times> nat" where
  "countSection section acc =
     (case acc of (totalSections', allocatedSections') \<Rightarrow>
        (totalSections' + 1,
         if Section.links section \<noteq> [] then allocatedSections' + 1 else allocatedSections'))"

definition computeGlobalTotals :: "state \<Rightarrow> totals" where
  "computeGlobalTotals st =
     (case fold (\<lambda>category. fold countSection (sections category)) (categories st) (0, 0) of
        (totalSections', allocatedSections') \<Rightarrow>
          \<lparr>totalSections = totalSections',
           allocatedSections = allocatedSections',
           pinnedCount = fcard (pinned st),
           allocationProgress =
             (if totalSections' \<noteq> 0
              then times_number
                     (divide_number (Num (of_nat allocatedSections')) (Num (of_nat totalSections')))
                     (Num 100)
              else Num 0)\<rparr>)"

section \<open>Pin store\<close>

text \<open>
  The browser around the pin store: the item kept under \<^verbatim>\<open>STORAGE_KEY\<close> in
  \<^verbatim>\<open>localStorage\<close> (absent, or a text), whether reading and writing the storage
  throw, and the warnings written to the console. Exceptions are values: an operation
  that may throw returns \<^term>\<open>Inl\<close> of the exception.
\<close>

datatype exn = SecurityError | SyntaxError | QuotaExceededError

record world =
  storedItem :: "string option"
  getItemThrows :: bool
  setItemThrows :: bool
  console :: "(string \<times> exn) list"

definition getItem :: "world \<Rightarrow> exn + string option" where
  "getItem w = (if getItemThrows w then Inl SecurityError else Inr (storedItem w))"

definition setItem :: "string \<Rightarrow> world \<Rightarrow> exn + world" where
  "setItem v w = (if setItemThrows w then Inl QuotaExceededError else Inr (w\<lparr>storedItem := Some v\<rparr>))"

definition console_warn :: "string \<Rightarrow> exn \<Rightarrow> world \<Rightarrow> world" where
  "console_warn message error w = w\<lparr>console := console w @ [(message, error)]\<rparr>"

text \<open>
  What \<^verbatim>\<open>JSON.parse\<close> returns, as far as \<^verbatim>\<open>loadPinned\<close> looks at it: an array,
  here of strings (what \<^verbatim>\<open>savePinned\<close> writes), or a value that is not an array
  (object, string, number, boolean, null). Arrays with other elements are not
  represented. The parser and the serialiser are parameters of the functions that
  call them: \<open>parse\<close> returns \<^term>\<open>Inl SyntaxError\<close> on malformed text, and
  \<open>stringify\<close> stands for \<^verbatim>\<open>JSON.stringify([...state.pinned])\<close>. The program
  lists the keys in the order of their insertion, which a finite set does not keep:
  the stored text is left to the parameter and no statement below describes it.
\<close>

datatype json = JArray "string list" | JOther

text \<open>The \<^verbatim>\<open>try\<close> block of \<^verbatim>\<open>loadPinned\<close>; an empty text is falsy like \<^verbatim>\<open>null\<close>.\<close>

definition loadPinned_try :: "(string \<Rightarrow> exn + json) \<Rightarrow> world \<Rightarrow> exn + string fset" where
  "loadPinned_try parse w =
     (case getItem w of
        Inl error \<Rightarrow> Inl error
      | Inr stored \<Rightarrow>
          (case stored of
             None \<Rightarrow> Inr {||}
           | Some text \<Rightarrow>
               if text = [] then Inr {||}
               else
                 (case parse text of
                    Inl error \<Rightarrow> Inl error
                  | Inr parsed \<Rightarrow>
                      Inr (fset_of_list (case parsed of JArray xs \<Rightarrow> xs | JOther \<Rightarrow> [])))))"

text \<open>\<^verbatim>\<open>loadPinned\<close>: the \<^verbatim>\<open>catch\<close> clause warns and returns a new empty set.\<close>

definition loadPinned :: "(string \<Rightarrow> exn + json) \<Rightarrow> world \<Rightarrow> exn + (string fset \<times> world)" where
  "loadPinned parse w =
     (case loadPinned_try parse w of
        Inl error \<Rightarrow> Inr ({||}, console_warn ''Failed to read pinned resources from storage'' error w)
      | Inr pins \<Rightarrow> Inr (pins, w))"

definition savePinned :: "(string fset \<Rightarrow> string) \<Rightarrow> state \<Rightarrow> world \<Rightarrow> exn + world" where
  "savePinned stringify st w =
     (case setItem (stringify (pinned st)) w of
        Inl error \<Rightarrow> Inr (console_warn ''Failed to persist pinned resources'' error w)
      | Inr w' \<Rightarrow> Inr w')"

text \<open>The branch on \<^verbatim>\<open>state.pinned.has(key)\<close> at the head of \<^verbatim>\<open>togglePinned\<close>.\<close>

definition togglePin :: "string fset \<Rightarrow> string \<Rightarrow> string fset" where
  "togglePin pins key = (if key |\<in>| pins then pins |-| {|key|} else finsert key pins)"

text \<open>
  \<^verbatim>\<open>togglePinned\<close>: the set is updated, then saved. The final \<^verbatim>\<open>render()\<close>
  rebuilds the page from the state and assigns neither to the state nor to the
  storage, so it does not appear in the result.
\<close>

definition togglePinned ::
  "(string fset \<Rightarrow> string) \<Rightarrow> string \<Rightarrow> state \<Rightarrow> world \<Rightarrow> exn + (state \<times> world)" where
  "togglePinned stringify key st w =
     (let st' = st\<lparr>pinned := togglePin (pinned st) key\<rparr>
      in case savePinned stringify st' w of
           Inl error \<Rightarrow> Inl error
         | Inr w' \<Rightarrow> Inr (st', w'))"

section \<open>Sample data\<close>

text \<open>
  A dataset of two categories: A with the sections A1 and A2, B with the section B1.
  The states below are used where a statement is evaluated on concrete input.
\<close>

definition sectionA1 :: Section where
  "sectionA1 = \<lparr>Section.code = ''A1'', title = ''Timetable'', status = Str ''Updated 2023'',
     description = Str ''Staff foo list'',
     links = [\<lparr>label = ''Sheet'', url = ''https://example.org/a1''\<rparr>]\<rparr>"

definition sectionA2 :: Section where
  "sectionA2 = \<lparr>Section.code = ''A2'', title = ''Budget'', status = Undefined,
     description = Undefined, links = []\<rparr>"

definition sectionB1 :: Section where
  "sectionB1 = \<lparr>Section.code = ''B1'', title = ''Excursions'', status = Str ''TBD'',
     description = Str ''Forms'', links = []\<rparr>"

definition categoryA :: Category where
  "categoryA = \<lparr>Category.code = ''A'', title = ''Admin'', description = Str ''Office'',
     links = [], sections = [sectionA1, sectionA2]\<rparr>"

definition categoryB :: Category where
  "categoryB = \<lparr>Category.code = ''B'', title = ''Welfare'', description = Undefined,
     links = [], sections = [sectionB1]\<rparr>"

text \<open>The state after start-up: no filter is set and nothing is pinned.\<close>

definition initialState :: state where
  "initialState = \<lparr>categories = [categoryA, categoryB], searchTerm = [], statusFilter = ''all'',
     categoryFilter = ''all'', showPinnedOnly = False, pinned = {||}\<rparr>"

text \<open>A1 is pinned and the pinned-only box is ticked; no other filter is set.\<close>

definition pinnedOnlyState :: state where
  "pinnedOnlyState = initialState\<lparr>showPinnedOnly := True, pinned := {|''A-A1''|}\<rparr>"



text \<open>A toy parser and serialiser for the samples.\<close>

definition sampleParse :: "string \<Rightarrow> exn + json" where
  "sampleParse text =
     (if text = ''[]'' then Inr (JArray [])
      else if text = ''{}'' then Inr JOther
      else Inl SyntaxError)"

definition sampleStringify :: "string fset \<Rightarrow> string" where
  "sampleStringify pins = (if pins = {||} then ''[]'' else ''[...]'')"

definition sampleWorld :: world where
  "sampleWorld = \<lparr>storedItem = None, getItemThrows = False, setItemThrows = False, console = []\<rparr>"

section \<open>The year pattern, as the specification words it\<close>

text \<open>
  The pattern "20 followed by two digits" fits the text at position \<open>i\<close>: the four
  code units from \<open>i\<close> on exist and are \<^verbatim>\<open>2\<close>, \<^verbatim>\<open>0\<close>, a digit, a digit.
\<close>

definition year_pattern_at :: "string \<Rightarrow> nat \<Rightarrow> bool" where
  "year_pattern_at text i =
     (i + 4 \<le> length text \<and> text ! i = CHR ''2'' \<and> text ! (i + 1) = CHR ''0''
      \<and> is_digit (text ! (i + 2)) \<and> is_digit (text ! (i + 3)))"

section \<open>The search test, as the specification words it\<close>

text \<open>
  The white-space separated tokens of a string: skip white space, take the units up
  to the next white space as a token, and go on behind it.
\<close>

function tokens :: "string \<Rightarrow> string list" where
  "tokens s =
     (case dropWhile is_space s of
        [] \<Rightarrow> []
      | c # r \<Rightarrow> takeWhile (\<lambda>x. \<not> is_space x) (c # r)
                 # tokens (dropWhile (\<lambda>x. \<not> is_space x) (c # r)))"
  by pat_completeness auto
termination
proof (relation "measure length")
  show "wf (measure length)" by simp
next
  fix s :: string and c r
  assume eq: "dropWhile is_space s = c # r"
  then have "\<not> is_space c" using hd_dropWhile [of is_space s] by auto
  then have "length (dropWhile (\<lambda>x. \<not> is_space x) (c # r)) \<le> length r"
    by (simp add: length_dropWhile_le)
  moreover have "length (c # r) \<le> length s"
    using length_dropWhile_le [of is_space s] eq by simp
  ultimately show "(dropWhile (\<lambda>x. \<not> is_space x) (c # r), s) \<in> measure length" by simp
qed

declare tokens.simps [simp del]

text \<open>
  The searchable fields of a section: category code and title, section code, title,
  status and description where the section has them, and the label and URL of every
  link of the section.
\<close>

fun present :: "jsval \<Rightarrow> string list" where
  "present (Str s) = [s]"
| "present _ = []"

definition searchableFields :: "Category \<Rightarrow> Section \<Rightarrow> string list" where
  "searchableFields category section =
     [Category.code category, Category.title category, Section.code section, Section.title section]
     @ present (status section) @ present (Section.description section)
     @ concat (map (\<lambda>link. [label link, url link]) (Section.links section))"

text \<open>
  The claimed search test: every token of the search string, lowercased, is a
  substring of the lowercased searchable fields, joined by single spaces (so that no
  token could lie across two fields).
\<close>

definition claimedSearchPredicate :: "string \<Rightarrow> Category \<Rightarrow> Section \<Rightarrow> bool" where
  "claimedSearchPredicate searchString category section =
     list_all
       (\<lambda>token. sublist (toLowerCase token)
                  (toLowerCase (join '' '' (searchableFields category section))))
       (tokens searchString)"

text \<open>
  A section with a status and without description, in a category with a description, and
  the state of a search for the word undefined in a dataset of this category alone.
\<close>

definition sectionB2 :: Section where
  "sectionB2 = \<lparr>Section.code = ''B2'', title = ''Camps'', status = Str ''Updated 2024'',
     description = Undefined, links = []\<rparr>"

definition campCategory :: Category where
  "campCategory = \<lparr>Category.code = ''B'', title = ''Welfare'', description = Str ''Student support'',
     links = [], sections = [sectionB2]\<rparr>"

definition undefinedSearchState :: state where
  "undefinedSearchState = initialState\<lparr>categories := [campCategory], searchTerm := ''undefined''\<rparr>"

section \<open>Command-centre totals do not read the filter\<close>

text \<open>
  Claim C3. The result of \<^verbatim>\<open>computeGlobalTotals\<close> is the same whatever the four
  filter fields of the state hold: it is determined by the dataset and the pin set.
\<close>

theorem computeGlobalTotals_filter_independent:
  "computeGlobalTotals
     (st\<lparr>searchTerm := q, statusFilter := y, categoryFilter := c, showPinnedOnly := p\<rparr>)
   = computeGlobalTotals st"
  by (simp add: computeGlobalTotals_def)

section \<open>Pin toggle\<close>

text \<open>
  Claim C6. Toggling a key is the symmetric difference of the pin set with that key:
  the key is added if absent and removed if present, the membership of every other
  key is unchanged, and toggling the same key twice gives the original set back.
  \<^verbatim>\<open>togglePinned\<close> applies this to the pin set of the state, so two calls with the same
  key end in the state they started from.
\<close>

theorem togglePin_symmetric_difference:
  "togglePin pins key = (pins |-| {|key|}) |\<union>| ({|key|} |-| pins)
   \<and> (key |\<in>| togglePin pins key \<longleftrightarrow> key |\<notin>| pins)
   \<and> (k \<noteq> key \<longrightarrow> (k |\<in>| togglePin pins key \<longleftrightarrow> k |\<in>| pins))
   \<and> togglePin (togglePin pins key) key = pins
   \<and> (\<exists>w'. togglePinned stringify key st w = Inr (st\<lparr>pinned := togglePin (pinned st) key\<rparr>, w'))
   \<and> (togglePinned stringify key st w = Inr (st1, w1)
        \<and> togglePinned stringify key st1 w1 = Inr (st2, w2) \<longrightarrow> st2 = st)"
proof -
  have twice: "togglePin (togglePin pins0 key) key = pins0" for pins0
    by (auto simp: togglePin_def)
  have state: "\<exists>w'. togglePinned stringify key st0 w0 = Inr (st0\<lparr>pinned := togglePin (pinned st0) key\<rparr>, w')"
    for st0 w0
    by (simp add: togglePinned_def savePinned_def split: sum.splits)
  have restored: "st2 = st"
    if "togglePinned stringify key st w = Inr (st1, w1)
        \<and> togglePinned stringify key st1 w1 = Inr (st2, w2)"
  proof -
    from that state [of st w] have "st1 = st\<lparr>pinned := togglePin (pinned st) key\<rparr>" by auto
    moreover from that state [of st1 w1] have "st2 = st1\<lparr>pinned := togglePin (pinned st1) key\<rparr>"
      by auto
    ultimately show ?thesis by (simp add: twice)
  qed
  have members: "togglePin pins key = (pins |-| {|key|}) |\<union>| ({|key|} |-| pins)
      \<and> (key |\<in>| togglePin pins key \<longleftrightarrow> key |\<notin>| pins)
      \<and> (k \<noteq> key \<longrightarrow> (k |\<in>| togglePin pins key \<longleftrightarrow> k |\<in>| pins))"
    by (auto simp: togglePin_def)
  from members twice [of pins] state [of st w] restored show ?thesis by blast
qed

lemma togglePinned_samples:
  "togglePinned sampleStringify ''A-A1'' initialState sampleWorld
     = Inr (initialState\<lparr>pinned := {|''A-A1''|}\<rparr>, sampleWorld\<lparr>storedItem := Some ''[...]''\<rparr>)
   \<and> togglePinned sampleStringify ''A-A1'' (initialState\<lparr>pinned := {|''A-A1''|}\<rparr>)
         (sampleWorld\<lparr>storedItem := Some ''[...]''\<rparr>)
     = Inr (initialState, sampleWorld\<lparr>storedItem := Some ''[]''\<rparr>)"
  by (simp add: togglePinned_def togglePin_def savePinned_def setItem_def sampleStringify_def
      sampleWorld_def initialState_def)

theorem togglePin_symmetric_difference_witness:
  "''A-A2'' \<noteq> ''A-A1''
   \<and> togglePin {|''A-A1''|} ''A-A1'' = {||}
   \<and> (''A-A2'' |\<in>| togglePin {|''A-A1'', ''A-A2''|} ''A-A1'' \<longleftrightarrow> ''A-A2'' |\<in>| {|''A-A1'', ''A-A2''|})
   \<and> togglePin (togglePin {|''A-A1''|} ''A-A1'') ''A-A1'' = {|''A-A1''|}
   \<and> togglePinned sampleStringify ''A-A1'' initialState sampleWorld
     = Inr (initialState\<lparr>pinned := {|''A-A1''|}\<rparr>, sampleWorld\<lparr>storedItem := Some ''[...]''\<rparr>)
   \<and> togglePinned sampleStringify ''A-A1'' (initialState\<lparr>pinned := {|''A-A1''|}\<rparr>)
         (sampleWorld\<lparr>storedItem := Some ''[...]''\<rparr>)
     = Inr (initialState, sampleWorld\<lparr>storedItem := Some ''[]''\<rparr>)"
  using
    togglePin_symmetric_difference [of "{|''A-A1''|}" "''A-A1''" "''A-A2''" sampleStringify
      initialState sampleWorld "initialState\<lparr>pinned := {|''A-A1''|}\<rparr>"
      "sampleWorld\<lparr>storedItem := Some ''[...]''\<rparr>" initialState
      "sampleWorld\<lparr>storedItem := Some ''[]''\<rparr>"]
    togglePin_symmetric_difference [of "{|''A-A1'', ''A-A2''|}" "''A-A1''" "''A-A2''" sampleStringify
      initialState sampleWorld "initialState\<lparr>pinned := {|''A-A1''|}\<rparr>"
      "sampleWorld\<lparr>storedItem := Some ''[...]''\<rparr>" initialState
      "sampleWorld\<lparr>storedItem := Some ''[]''\<rparr>"]
    togglePinned_samples
  by (simp add: togglePin_def)

section \<open>Loading and saving the pin set\<close>

lemma loadPinned_returns: "\<exists>pins w'. loadPinned parse w = Inr (pins, w')"
  by (simp add: loadPinned_def split: sum.splits)

lemma savePinned_returns: "\<exists>w'. savePinned stringify st w = Inr w'"
  by (simp add: savePinned_def split: sum.splits)

text \<open>
  Claim C8. \<^verbatim>\<open>loadPinned\<close> always returns a pin set and never an exception; the set is
  empty when the item is missing, when its text does not parse, and when it parses to
  a value that is not an array. \<^verbatim>\<open>togglePinned\<close> always returns, with the toggled pin
  set in the state; when the write throws, the exception is caught, a warning is added
  to the console and the storage is left as it was.
\<close>

theorem loadPinned_savePinned_never_raise:
  "(\<exists>pins w'. loadPinned parse w = Inr (pins, w'))
   \<and> (storedItem w = None \<longrightarrow> (\<exists>w'. loadPinned parse w = Inr ({||}, w')))
   \<and> (storedItem w = Some text \<and> parse text = Inl error \<longrightarrow>
        (\<exists>w'. loadPinned parse w = Inr ({||}, w')))
   \<and> (storedItem w = Some text \<and> parse text = Inr JOther \<longrightarrow>
        (\<exists>w'. loadPinned parse w = Inr ({||}, w')))
   \<and> (\<exists>w'. savePinned stringify st w = Inr w')
   \<and> (\<exists>w'. togglePinned stringify key st w
              = Inr (st\<lparr>pinned := togglePin (pinned st) key\<rparr>, w'))
   \<and> (setItemThrows w \<longrightarrow>
        togglePinned stringify key st w
          = Inr (st\<lparr>pinned := togglePin (pinned st) key\<rparr>,
                 console_warn ''Failed to persist pinned resources'' QuotaExceededError w))"
proof -
  have missing: "storedItem w = None \<longrightarrow> (\<exists>w'. loadPinned parse w = Inr ({||}, w'))"
    by (simp add: loadPinned_def loadPinned_try_def getItem_def)
  have malformed: "storedItem w = Some text \<and> parse text = Inl error \<longrightarrow>
      (\<exists>w'. loadPinned parse w = Inr ({||}, w'))"
    by (simp add: loadPinned_def loadPinned_try_def getItem_def)
  have non_array: "storedItem w = Some text \<and> parse text = Inr JOther \<longrightarrow>
      (\<exists>w'. loadPinned parse w = Inr ({||}, w'))"
    by (simp add: loadPinned_def loadPinned_try_def getItem_def)
  have toggled: "\<exists>w'. togglePinned stringify key st w
      = Inr (st\<lparr>pinned := togglePin (pinned st) key\<rparr>, w')"
    by (simp add: togglePinned_def savePinned_def split: sum.splits)
  have write_fails: "setItemThrows w \<longrightarrow>
      togglePinned stringify key st w
        = Inr (st\<lparr>pinned := togglePin (pinned st) key\<rparr>,
               console_warn ''Failed to persist pinned resources'' QuotaExceededError w)"
    by (simp add: togglePinned_def savePinned_def setItem_def)
  from loadPinned_returns savePinned_returns missing malformed non_array toggled write_fails
  show ?thesis by blast
qed

theorem loadPinned_savePinned_never_raise_witness:
  "loadPinned sampleParse (sampleWorld\<lparr>storedItem := Some ''{oops''\<rparr>)
     = Inr ({||}, console_warn ''Failed to read pinned resources from storage'' SyntaxError
                    (sampleWorld\<lparr>storedItem := Some ''{oops''\<rparr>))
   \<and> loadPinned sampleParse (sampleWorld\<lparr>storedItem := Some ''{}''\<rparr>)
     = Inr ({||}, sampleWorld\<lparr>storedItem := Some ''{}''\<rparr>)
   \<and> loadPinned sampleParse sampleWorld = Inr ({||}, sampleWorld)
   \<and> togglePinned sampleStringify ''A-A1'' initialState (sampleWorld\<lparr>setItemThrows := True\<rparr>)
     = Inr (initialState\<lparr>pinned := {|''A-A1''|}\<rparr>,
            console_warn ''Failed to persist pinned resources'' QuotaExceededError
              (sampleWorld\<lparr>setItemThrows := True\<rparr>))"
  using
    loadPinned_savePinned_never_raise [of sampleParse "sampleWorld\<lparr>storedItem := Some ''{oops''\<rparr>"
      "''{oops''" SyntaxError sampleStringify initialState "''A-A1''"]
    loadPinned_savePinned_never_raise [of sampleParse "sampleWorld\<lparr>storedItem := Some ''{}''\<rparr>"
      "''{}''" SyntaxError sampleStringify initialState "''A-A1''"]
    loadPinned_savePinned_never_raise [of sampleParse sampleWorld
      "''{}''" SyntaxError sampleStringify initialState "''A-A1''"]
    loadPinned_savePinned_never_raise [of sampleParse "sampleWorld\<lparr>setItemThrows := True\<rparr>"
      "''{}''" SyntaxError sampleStringify initialState "''A-A1''"]
  by (simp add: loadPinned_def loadPinned_try_def getItem_def sampleParse_def sampleWorld_def
      initialState_def togglePin_def console_warn_def)

section \<open>What the totals count\<close>

lemma fold_countSection:
  "fold countSection ss (t, a)
   = (t + length ss, a + length (filter (\<lambda>section. Section.links section \<noteq> []) ss))"
  by (induction ss arbitrary: t a) (simp_all add: countSection_def)

lemma fold_categories_count:
  "fold (\<lambda>category. fold countSection (sections category)) cs (t, a)
   = (t + length (concat (map sections cs)),
      a + length (filter (\<lambda>section. Section.links section \<noteq> []) (concat (map sections cs))))"
  by (induction cs arbitrary: t a) (simp_all add: fold_countSection)

lemma to_double_not_NaN: "to_double q \<noteq> NaN"
  by (simp add: to_double_def infinity_of_def Let_def split: prod.splits)

lemma progress_not_NaN: "times_number (to_double q) (Num 100) \<noteq> NaN"
proof (cases "to_double q")
  case (Num x)
  then show ?thesis by (simp add: to_double_not_NaN)
next
  case Infinity
  then show ?thesis by (simp add: infinity_of_def)
next
  case NegInfinity
  then show ?thesis by (simp add: infinity_of_def)
next
  case NaN
  then show ?thesis by (simp add: to_double_not_NaN)
qed

text \<open>
  Claim C9. \<^verbatim>\<open>computeGlobalTotals\<close> returns the number of sections of the whole
  dataset, the number of those with at least one link, the size of the pin set, and
  as progress the double \<^verbatim>\<open>(allocatedSections / totalSections) * 100\<close>, which is 0
  when the dataset has no section; the progress is never the NaN that zero divided by
  zero would give.
\<close>

theorem computeGlobalTotals_counts:
  "totalSections (computeGlobalTotals st) = length (concat (map sections (categories st)))
   \<and> allocatedSections (computeGlobalTotals st)
       = length (filter (\<lambda>section. Section.links section \<noteq> []) (concat (map sections (categories st))))
   \<and> pinnedCount (computeGlobalTotals st) = fcard (pinned st)
   \<and> (totalSections (computeGlobalTotals st) \<noteq> 0 \<longrightarrow>
        allocationProgress (computeGlobalTotals st)
          = times_number
              (divide_number (Num (of_nat (allocatedSections (computeGlobalTotals st))))
                 (Num (of_nat (totalSections (computeGlobalTotals st)))))
              (Num 100))
   \<and> (totalSections (computeGlobalTotals st) = 0 \<longrightarrow>
        allocationProgress (computeGlobalTotals st) = Num 0)
   \<and> allocationProgress (computeGlobalTotals st) \<noteq> NaN"
  by (simp add: computeGlobalTotals_def fold_categories_count progress_not_NaN)

lemma computeGlobalTotals_samples:
  "computeGlobalTotals pinnedOnlyState
     = \<lparr>totalSections = 3, allocatedSections = 1, pinnedCount = 1,
        allocationProgress = Num (2345624805922133 / 70368744177664)\<rparr>
   \<and> computeGlobalTotals (initialState\<lparr>categories := []\<rparr>)
     = \<lparr>totalSections = 0, allocatedSections = 0, pinnedCount = 0, allocationProgress = Num 0\<rparr>
   \<and> times_number (divide_number (Num 1) (Num 3)) (Num 100)
     = Num (2345624805922133 / 70368744177664)
   \<and> times_number (divide_number (Num 7) (Num 25)) (Num 100)
     = Num (7881299347898369 / 281474976710656)
   \<and> times_number (divide_number (Num 23) (Num 40)) (Num 100)
     = Num (8092405580431359 / 140737488355328)
   \<and> divide_number (Num 0) (Num 0) = NaN"
  by code_simp

theorem computeGlobalTotals_counts_witness:
  "computeGlobalTotals pinnedOnlyState
     = \<lparr>totalSections = 3, allocatedSections = 1, pinnedCount = 1,
        allocationProgress = Num (2345624805922133 / 70368744177664)\<rparr>
   \<and> times_number (divide_number (Num 1) (Num 3)) (Num 100)
     = Num (2345624805922133 / 70368744177664)
   \<and> computeGlobalTotals (initialState\<lparr>categories := []\<rparr>)
     = \<lparr>totalSections = 0, allocatedSections = 0, pinnedCount = 0, allocationProgress = Num 0\<rparr>
   \<and> times_number (divide_number (Num 7) (Num 25)) (Num 100)
     = Num (7881299347898369 / 281474976710656)
   \<and> times_number (divide_number (Num 23) (Num 40)) (Num 100)
     = Num (8092405580431359 / 140737488355328)
   \<and> divide_number (Num 0) (Num 0) = NaN"
  using computeGlobalTotals_counts [of pinnedOnlyState]
    computeGlobalTotals_counts [of "initialState\<lparr>categories := []\<rparr>"]
    computeGlobalTotals_samples
  by simp

section \<open>Substrings and search terms\<close>

lemma includes_str_sublist: "includes_str haystack t = sublist t haystack"
proof (induction haystack)
  case Nil
  show ?case by simp
next
  case (Cons c cs)
  show ?case
  proof (cases t)
    case Nil
    then show ?thesis by simp
  next
    case (Cons a as)
    with Cons.IH show ?thesis by (simp add: sublist_Cons_right)
  qed
qed

lemma includes_str_iff: "includes_str haystack t \<longleftrightarrow> (\<exists>p s. haystack = p @ t @ s)"
  by (simp add: includes_str_sublist sublist_def)

lemma matchesSearch_iff:
  "matchesSearch terms haystack \<longleftrightarrow> (\<forall>t \<in> set terms. \<exists>p s. haystack = p @ t @ s)"
  by (simp add: matchesSearch_def list_all_iff includes_str_iff)

lemma searchTerms_empty: "searchTerm st = [] \<Longrightarrow> searchTerms st = []"
  by (simp add: searchTerms_def toLowerCase_def Boolean_def)

lemma searchTerms_update [simp]:
  "searchTerms (st\<lparr>statusFilter := y\<rparr>) = searchTerms st"
  "searchTerms (st\<lparr>categoryFilter := c\<rparr>) = searchTerms st"
  "searchTerms (st\<lparr>showPinnedOnly := b\<rparr>) = searchTerms st"
  "searchTerms (st\<lparr>pinned := pins\<rparr>) = searchTerms st"
  by (simp_all add: searchTerms_def)

lemma is_space_lower_char: "is_space (lower_char c) = is_space c"
proof (cases "has_lower_case c")
  case False
  then show ?thesis by (simp add: lower_char_def)
next
  case True
  define n where "n = (of_char c :: nat)"
  from True have range: "(65 \<le> n \<and> n \<le> 90) \<or> (192 \<le> n \<and> n \<le> 222)"
    by (auto simp: has_lower_case_def Let_def n_def)
  then have "(n + 32) mod 256 = n + 32" by auto
  with range True show ?thesis
    by (auto simp: is_space_def lower_char_def Let_def n_def [symmetric])
qed

lemma space_is_space: "is_space CHR '' ''"
  by (simp add: is_space_def)

lemma searchPredicate_iff:
  "searchPredicate st category section
   \<longleftrightarrow> (\<forall>t \<in> set (searchTerms st). \<exists>p s. sectionHaystack category section = p @ t @ s)"
  by (simp add: searchPredicate_def matchesSearch_iff)

lemma tokens_Nil [simp]: "tokens [] = []"
  by (simp add: tokens.simps)

lemma tokens_space: "is_space c \<Longrightarrow> tokens (c # s) = tokens s"
  by (subst tokens.simps, subst (2) tokens.simps) simp

lemma tokens_word:
  "\<not> is_space c \<Longrightarrow>
   tokens (c # s) = (c # takeWhile (\<lambda>x. \<not> is_space x) s) # tokens (dropWhile (\<lambda>x. \<not> is_space x) s)"
  by (subst tokens.simps) simp

lemma Boolean_simps [simp]: "Boolean [] = False" "Boolean (x # xs) = True"
  by (simp_all add: Boolean_def)

lemma split_ws_not_Nil: "split_ws s \<noteq> []"
  by (induction s rule: split_ws.induct) (simp_all split: list.splits)

lemma split_ws_structure:
  "hd (split_ws s) = takeWhile (\<lambda>x. \<not> is_space x) s
   \<and> filter Boolean (tl (split_ws s)) = tokens (dropWhile (\<lambda>x. \<not> is_space x) s)"
proof (induction s rule: split_ws.induct)
  case 1
  show ?case by simp
next
  case (2 c)
  show ?case by (simp add: tokens_space)
next
  case (3 c d cs)
  obtain t ts where split: "split_ws (d # cs) = t # ts"
    using split_ws_not_Nil [of "d # cs"] by (cases "split_ws (d # cs)") auto
  have "hd (split_ws (d # cs)) = takeWhile (\<lambda>x. \<not> is_space x) (d # cs)
      \<and> filter Boolean (tl (split_ws (d # cs)))
          = tokens (dropWhile (\<lambda>x. \<not> is_space x) (d # cs))"
    using 3 by blast
  with split have t: "t = takeWhile (\<lambda>x. \<not> is_space x) (d # cs)"
    and ts: "filter Boolean ts = tokens (dropWhile (\<lambda>x. \<not> is_space x) (d # cs))"
    by simp_all
  show ?case
  proof (cases "is_space c")
    case False
    with t ts split show ?thesis by simp
  next
    case True
    note c = this
    show ?thesis
    proof (cases "is_space d")
      case True
      with t ts split c show ?thesis by (simp add: tokens_space)
    next
      case False
      with t ts split c show ?thesis
        by (simp add: tokens_space tokens_word)
    qed
  qed
qed

lemma filter_split_ws_tokens: "filter Boolean (split_ws s) = tokens s"
proof (cases s)
  case Nil
  then show ?thesis by simp
next
  case (Cons c cs)
  obtain t ts where split: "split_ws s = t # ts"
    using split_ws_not_Nil [of s] by (cases "split_ws s") auto
  from split_ws_structure [of s] split
  have t: "t = takeWhile (\<lambda>x. \<not> is_space x) s"
    and ts: "filter Boolean ts = tokens (dropWhile (\<lambda>x. \<not> is_space x) s)"
    by simp_all
  show ?thesis
  proof (cases "is_space c")
    case True
    with Cons t ts split show ?thesis by simp
  next
    case False
    with Cons t ts split show ?thesis by (simp add: tokens_word)
  qed
qed

lemma tokens_toLowerCase: "tokens (toLowerCase s) = map toLowerCase (tokens s)"
proof (induction s rule: tokens.induct)
  case (1 s)
  have drop: "dropWhile is_space (map lower_char s) = map lower_char (dropWhile is_space s)"
    by (simp add: dropWhile_map comp_def is_space_lower_char)
  show ?case
  proof (cases "dropWhile is_space s")
    case Nil
    with drop have low: "dropWhile is_space (map lower_char s) = []" by simp
    have "tokens (toLowerCase s) = []"
      by (subst tokens.simps) (simp only: toLowerCase_def low list.case)
    moreover have "tokens s = []"
      by (subst tokens.simps) (simp only: Nil list.case)
    ultimately show ?thesis by simp
  next
    case (Cons c r)
    have tw: "takeWhile (\<lambda>x. \<not> is_space x) (map lower_char (c # r))
        = map lower_char (takeWhile (\<lambda>x. \<not> is_space x) (c # r))"
      by (simp only: takeWhile_map comp_def is_space_lower_char)
    have dw: "dropWhile (\<lambda>x. \<not> is_space x) (map lower_char (c # r))
        = map lower_char (dropWhile (\<lambda>x. \<not> is_space x) (c # r))"
      by (simp only: dropWhile_map comp_def is_space_lower_char)
    from 1 [OF Cons]
    have IH: "tokens (toLowerCase (dropWhile (\<lambda>x. \<not> is_space x) (c # r)))
        = map toLowerCase (tokens (dropWhile (\<lambda>x. \<not> is_space x) (c # r)))" .
    have lhs: "tokens (toLowerCase s)
        = takeWhile (\<lambda>x. \<not> is_space x) (map lower_char (c # r))
          # tokens (dropWhile (\<lambda>x. \<not> is_space x) (map lower_char (c # r)))"
      using drop Cons by (subst tokens.simps) (simp add: toLowerCase_def)
    have rhs: "tokens s
        = takeWhile (\<lambda>x. \<not> is_space x) (c # r)
          # tokens (dropWhile (\<lambda>x. \<not> is_space x) (c # r))"
      using Cons by (subst tokens.simps) simp
    show ?thesis
      unfolding lhs rhs tw dw using IH by (simp add: toLowerCase_def)
  qed
qed

lemma searchTerms_tokens: "searchTerms st = map toLowerCase (tokens (searchTerm st))"
  by (simp add: searchTerms_def filter_split_ws_tokens tokens_toLowerCase)

lemma split_ws_no_space: "t \<in> set (split_ws s) \<Longrightarrow> c \<in> set t \<Longrightarrow> \<not> is_space c"
proof (induction s arbitrary: t rule: split_ws.induct)
  case 1
  then show ?case by simp
next
  case (2 c)
  then show ?case by (simp split: if_splits)
next
  case (3 a d cs)
  then show ?case by (fastforce split: if_splits list.splits)
qed

lemma searchTerms_word:
  "t \<in> set (searchTerms st) \<Longrightarrow> t \<noteq> [] \<and> CHR '' '' \<notin> set t"
proof -
  assume "t \<in> set (searchTerms st)"
  then have t: "t \<in> set (split_ws (toLowerCase (searchTerm st)))" and "t \<noteq> []"
    by (auto simp: searchTerms_def Boolean_def)
  moreover have "CHR '' '' \<notin> set t"
    using split_ws_no_space [OF t] space_is_space by blast
  ultimately show ?thesis by simp
qed

lemma sublist_trailing_space:
  assumes "t \<noteq> []" and "CHR '' '' \<notin> set t"
  shows "sublist t (u @ '' '') = sublist t u"
proof
  assume "sublist t u"
  then obtain p s where "u = p @ t @ s" by (auto simp: sublist_def)
  then have "u @ '' '' = p @ t @ (s @ '' '')" by simp
  then show "sublist t (u @ '' '')" unfolding sublist_def by blast
next
  assume "sublist t (u @ '' '')"
  then obtain p s where eq: "u @ '' '' = p @ t @ s" by (auto simp: sublist_def)
  show "sublist t u"
  proof (cases s rule: rev_cases)
    case Nil
    with eq have "u @ '' '' = p @ t" by simp
    with assms(1) have "last t = CHR '' ''"
      by (metis last_appendR last_snoc)
    with assms show ?thesis using last_in_set by metis
  next
    case (snoc s' x)
    with eq have "u @ '' '' = (p @ t @ s') @ [x]" by simp
    then have "u = p @ t @ s'" by simp
    then show ?thesis by (auto simp: sublist_def)
  qed
qed

lemma join_append:
  "xs \<noteq> [] \<Longrightarrow> ys \<noteq> [] \<Longrightarrow> join sep (xs @ ys) = join sep xs @ sep @ join sep ys"
proof (induction sep xs rule: join.induct)
  case (1 sep)
  then show ?case by simp
next
  case (2 sep x)
  then obtain y ys' where "ys = y # ys'" by (cases ys) auto
  then show ?case by simp
next
  case (3 sep x y ys)
  then show ?case by simp
qed

lemma join_link_fields:
  "join '' '' (concat (map (\<lambda>link. [label link, url link]) ls))
   = join '' '' (map (\<lambda>link. label link @ '' '' @ url link) ls)"
proof (induction ls)
  case Nil
  show ?case by simp
next
  case (Cons l ls)
  show ?case
  proof (cases ls)
    case Nil
    then show ?thesis by simp
  next
    case (Cons l' ls')
    then have ne: "concat (map (\<lambda>link. [label link, url link]) ls) \<noteq> []" by simp
    have "join '' '' (concat (map (\<lambda>link. [label link, url link]) (l # ls)))
        = join '' '' ([label l, url l] @ concat (map (\<lambda>link. [label link, url link]) ls))"
      by simp
    also have "\<dots> = join '' '' [label l, url l] @ '' ''
        @ join '' '' (concat (map (\<lambda>link. [label link, url link]) ls))"
      using ne by (intro join_append) simp_all
    finally show ?thesis using Cons.IH Cons by simp
  qed
qed

lemma sectionHaystack_fields:
  assumes "status section = Str x" and "Section.description section = Str y"
  shows "sectionHaystack category section
    = toLowerCase (join '' '' (searchableFields category section))
      @ (if Section.links section = [] then '' '' else [])"
proof (cases "Section.links section = []")
  case True
  with assms show ?thesis
    by (simp add: sectionHaystack_def searchableFields_def toLowerCase_def lower_char_def
        has_lower_case_def)
next
  case False
  then have ne: "concat (map (\<lambda>link. [label link, url link]) (Section.links section)) \<noteq> []"
    by (cases "Section.links section") simp_all
  have "join '' '' (searchableFields category section)
      = join '' '' [Category.code category, Category.title category, Section.code section,
          Section.title section, x, y] @ '' ''
        @ join '' '' (concat (map (\<lambda>link. [label link, url link]) (Section.links section)))"
    using assms join_append [OF _ ne, of "[Category.code category, Category.title category,
        Section.code section, Section.title section, x, y]" "'' ''"]
    by (simp add: searchableFields_def)
  with assms False show ?thesis
    by (simp add: sectionHaystack_def join_link_fields)
qed

lemma searchPredicate_present_fields:
  assumes "status section = Str x" and "Section.description section = Str y"
  shows "searchPredicate st category section
    = claimedSearchPredicate (searchTerm st) category section"
proof -
  have "sublist t (sectionHaystack category section)
      = sublist t (toLowerCase (join '' '' (searchableFields category section)))"
    if "t \<in> set (searchTerms st)" for t
  proof -
    from that have "t \<noteq> []" "CHR '' '' \<notin> set t" using searchTerms_word by blast+
    then show ?thesis
      by (simp add: sectionHaystack_fields [OF assms] sublist_trailing_space)
  qed
  then have "searchPredicate st category section
      = (\<forall>t \<in> set (searchTerms st).
           sublist t (toLowerCase (join '' '' (searchableFields category section))))"
    by (simp add: searchPredicate_def matchesSearch_def list_all_iff includes_str_sublist)
  then show ?thesis
    by (simp add: claimedSearchPredicate_def list_all_iff searchTerms_tokens)
qed

lemma searchPredicate_token_set:
  "set (tokens (searchTerm st')) = set (tokens (searchTerm st)) \<Longrightarrow>
   searchPredicate st' category section = searchPredicate st category section"
proof -
  assume "set (tokens (searchTerm st')) = set (tokens (searchTerm st))"
  then have "set (searchTerms st') = set (searchTerms st)"
    by (simp add: searchTerms_tokens)
  then show ?thesis by (simp add: searchPredicate_iff)
qed

text \<open>
  Claim C2 holds on the code for every section that has a status and a description
  (\<open>searchPredicate_present_fields\<close>), and the search test depends on the set of
  tokens only (\<open>searchPredicate_token_set\<close>). It fails where a field is absent: the
  template literal of the haystack prints the word undefined for it. Searching for
  "undefined", the section B2, which has no description, passes the search test and is
  shown, although the token occurs in none of its searchable fields.
\<close>

theorem searchPredicate_absent_description:
  "tokens (searchTerm undefinedSearchState) = [''undefined'']
   \<and> searchTerms undefinedSearchState = [''undefined'']
   \<and> sectionHaystack campCategory sectionB2 = ''b welfare b2 camps updated 2024 undefined ''
   \<and> searchPredicate undefinedSearchState campCategory sectionB2
   \<and> map (\<lambda>fc. (Category.code fc, map Section.code (sections fc), categoryMatches fc))
         (filterData undefinedSearchState) = [(''B'', [''B2''], False)]
   \<and> searchableFields campCategory sectionB2 = [''B'', ''Welfare'', ''B2'', ''Camps'', ''Updated 2024'']
   \<and> list_all (\<lambda>field. \<not> sublist ''undefined'' (toLowerCase field))
         (searchableFields campCategory sectionB2)
   \<and> \<not> claimedSearchPredicate (searchTerm undefinedSearchState) campCategory sectionB2"
  by code_simp

theorem searchPredicate_absent_description_witness:
  "searchPredicate undefinedSearchState campCategory sectionB2
   \<and> map (\<lambda>fc. (Category.code fc, map Section.code (sections fc), categoryMatches fc))
         (filterData undefinedSearchState) = [(''B'', [''B2''], False)]
   \<and> \<not> claimedSearchPredicate (searchTerm undefinedSearchState) campCategory sectionB2"
  using searchPredicate_absent_description by blast

section \<open>The filtered view\<close>

lemma filterCategory_sections [simp]:
  "sections (filterCategory st category) = filter (keepSection st category) (sections category)"
  by (simp add: filterCategory_def Category.defs Let_def)

lemma filterCategory_code [simp]:
  "Category.code (filterCategory st category) = Category.code category"
  by (simp add: filterCategory_def Category.defs Let_def)

lemma filterCategory_categoryMatches [simp]:
  "categoryMatches (filterCategory st category)
   = matchesSearch (searchTerms st) (categorySearchText category)"
  by (simp add: filterCategory_def Category.defs Let_def matchesSearch_def)

lemma filterData_subset: "set (filterData st) \<subseteq> filterCategory st ` set (categories st)"
  by (auto simp: filterData_def)

lemma filterCategory_in_filterData:
  "category \<in> set (categories st) \<Longrightarrow>
   filterCategory st category \<in> set (filterData st)
   \<longleftrightarrow> (sections (filterCategory st category) \<noteq> []
        \<or> matchesSearch (searchTerms st) (categorySearchText category))"
  by (auto simp: filterData_def)

lemma keepSection_iff:
  "keepSection st category section
   \<longleftrightarrow> ((categoryFilter st = ''all'' \<or> categoryFilter st = Category.code category)
        \<and> (showPinnedOnly st \<longrightarrow>
             sectionKey (Category.code category) (Section.code section) |\<in>| pinned st)
        \<and> (statusFilter st = ''all'' \<or> extractYear (status section) = Some (statusFilter st))
        \<and> searchPredicate st category section)"
  by (auto simp: keepSection_def)

lemma section_shown_iff:
  "category \<in> set (categories st) \<Longrightarrow>
   (filterCategory st category \<in> set (filterData st)
      \<and> section \<in> set (sections (filterCategory st category)))
   \<longleftrightarrow> (section \<in> set (sections category) \<and> keepSection st category section)"
  by (auto simp: filterCategory_in_filterData filter_empty_conv)

text \<open>
  Claim C4. A section of a category of the dataset appears in the output of
  \<^verbatim>\<open>filterData\<close> exactly when it passes the four tests of the callback: the category
  filter, the pinned-only filter, the status filter and the search test; every
  category of the output comes from a category of the dataset. With an empty search
  string the search test passes, so the other three tests alone decide.
\<close>

theorem filterData_section_iff:
  "(category \<in> set (categories st) \<longrightarrow>
      ((filterCategory st category \<in> set (filterData st)
          \<and> section \<in> set (sections (filterCategory st category)))
       \<longleftrightarrow> (section \<in> set (sections category)
            \<and> (categoryFilter st = ''all'' \<or> categoryFilter st = Category.code category)
            \<and> (showPinnedOnly st \<longrightarrow>
                 sectionKey (Category.code category) (Section.code section) |\<in>| pinned st)
            \<and> (statusFilter st = ''all'' \<or> extractYear (status section) = Some (statusFilter st))
            \<and> searchPredicate st category section)))
   \<and> set (filterData st) \<subseteq> filterCategory st ` set (categories st)
   \<and> (searchTerm st = [] \<longrightarrow> searchPredicate st category section)
   \<and> (searchTerm st = [] \<longrightarrow>
        keepSection st category section
        = ((categoryFilter st = ''all'' \<or> categoryFilter st = Category.code category)
           \<and> (showPinnedOnly st \<longrightarrow>
                sectionKey (Category.code category) (Section.code section) |\<in>| pinned st)
           \<and> (statusFilter st = ''all'' \<or> extractYear (status section) = Some (statusFilter st))))"
proof (intro conjI impI)
  assume "category \<in> set (categories st)"
  then show "(filterCategory st category \<in> set (filterData st)
          \<and> section \<in> set (sections (filterCategory st category)))
       \<longleftrightarrow> (section \<in> set (sections category)
            \<and> (categoryFilter st = ''all'' \<or> categoryFilter st = Category.code category)
            \<and> (showPinnedOnly st \<longrightarrow>
                 sectionKey (Category.code category) (Section.code section) |\<in>| pinned st)
            \<and> (statusFilter st = ''all'' \<or> extractYear (status section) = Some (statusFilter st))
            \<and> searchPredicate st category section)"
    by (simp only: section_shown_iff keepSection_iff)
next
  show "set (filterData st) \<subseteq> filterCategory st ` set (categories st)"
    by (rule filterData_subset)
next
  assume "searchTerm st = []"
  then show "searchPredicate st category section"
    by (simp add: searchPredicate_def searchTerms_empty)
next
  assume "searchTerm st = []"
  then have "searchPredicate st category section"
    by (simp add: searchPredicate_def searchTerms_empty)
  then show "keepSection st category section
        = ((categoryFilter st = ''all'' \<or> categoryFilter st = Category.code category)
           \<and> (showPinnedOnly st \<longrightarrow>
                sectionKey (Category.code category) (Section.code section) |\<in>| pinned st)
           \<and> (statusFilter st = ''all'' \<or> extractYear (status section) = Some (statusFilter st)))"
    by (simp add: keepSection_iff)
qed

lemma filterData_section_samples:
  "categoryA \<in> set (categories pinnedOnlyState)
   \<and> filterCategory pinnedOnlyState categoryA \<in> set (filterData pinnedOnlyState)
   \<and> sectionA1 \<in> set (sections (filterCategory pinnedOnlyState categoryA))
   \<and> sectionA2 \<notin> set (sections (filterCategory pinnedOnlyState categoryA))
   \<and> showPinnedOnly pinnedOnlyState
   \<and> searchTerm pinnedOnlyState = []
   \<and> sectionKey (Category.code categoryA) (Section.code sectionA2) |\<notin>| pinned pinnedOnlyState"
  by code_simp

theorem filterData_section_iff_witness:
  "categoryA \<in> set (categories pinnedOnlyState)
   \<and> filterCategory pinnedOnlyState categoryA \<in> set (filterData pinnedOnlyState)
   \<and> sectionA1 \<in> set (sections (filterCategory pinnedOnlyState categoryA))
   \<and> sectionA2 \<notin> set (sections (filterCategory pinnedOnlyState categoryA))
   \<and> showPinnedOnly pinnedOnlyState
   \<and> searchTerm pinnedOnlyState = []
   \<and> searchPredicate pinnedOnlyState categoryA sectionA2
   \<and> \<not> keepSection pinnedOnlyState categoryA sectionA2"
  using filterData_section_iff [of categoryA pinnedOnlyState sectionA2]
    filterData_section_iff [of categoryA pinnedOnlyState sectionA1]
    filterData_section_samples
  by simp

section \<open>Categories of the filtered view\<close>





section \<open>Year extraction\<close>

lemma year_pattern_at_Suc: "year_pattern_at (a # text) (Suc i) = year_pattern_at text i"
  by (simp add: year_pattern_at_def add.commute)

lemma year_pattern_at_0:
  "year_pattern_at (a # b # c # d # rest) 0
   = (a = CHR ''2'' \<and> b = CHR ''0'' \<and> is_digit c \<and> is_digit d)"
  by (simp add: year_pattern_at_def)

lemma year_pattern_at_short: "length text < 4 \<Longrightarrow> \<not> year_pattern_at text i"
  by (simp add: year_pattern_at_def)

lemma exec_year_None: "exec_year text = None \<Longrightarrow> \<not> year_pattern_at text i"
proof (induction "text" arbitrary: i rule: exec_year.induct)
  case (1 a b c d rest)
  show ?case
  proof (cases i)
    case 0
    with 1 show ?thesis by (simp add: year_pattern_at_0 split: if_splits)
  next
    case (Suc j)
    with 1 show ?thesis by (simp add: year_pattern_at_Suc split: if_splits)
  qed
qed (simp_all add: year_pattern_at_short)

lemma exec_year_Some:
  "exec_year text = Some y \<Longrightarrow>
   \<exists>i. year_pattern_at text i \<and> (\<forall>j<i. \<not> year_pattern_at text j) \<and> y = take 4 (drop i text)"
proof (induction "text" rule: exec_year.induct)
  case (1 a b c d rest)
  show ?case
  proof (cases "a = CHR ''2'' \<and> b = CHR ''0'' \<and> is_digit c \<and> is_digit d")
    case True
    with 1 have "y = take 4 (drop 0 (a # b # c # d # rest))" by auto
    moreover from True have "year_pattern_at (a # b # c # d # rest) 0"
      by (simp add: year_pattern_at_0)
    ultimately show ?thesis by blast
  next
    case False
    with 1 obtain i where i: "year_pattern_at (b # c # d # rest) i"
        "\<forall>j<i. \<not> year_pattern_at (b # c # d # rest) j" "y = take 4 (drop i (b # c # d # rest))"
      by auto
    from False have no0: "\<not> year_pattern_at (a # b # c # d # rest) 0"
      by (simp add: year_pattern_at_0)
    have "\<forall>j<Suc i. \<not> year_pattern_at (a # b # c # d # rest) j"
    proof (intro allI impI)
      fix j assume "j < Suc i"
      then show "\<not> year_pattern_at (a # b # c # d # rest) j"
        using no0 i(2) by (cases j) (simp_all add: year_pattern_at_Suc)
    qed
    moreover have "year_pattern_at (a # b # c # d # rest) (Suc i)"
      using i(1) by (simp add: year_pattern_at_Suc)
    moreover have "y = take 4 (drop (Suc i) (a # b # c # d # rest))" using i(3) by simp
    ultimately show ?thesis by blast
  qed
qed simp_all

lemma exec_year_leftmost:
  "(exec_year text = Some y) =
   (\<exists>i. year_pattern_at text i \<and> (\<forall>j<i. \<not> year_pattern_at text j) \<and> y = take 4 (drop i text))"
proof
  assume "exec_year text = Some y"
  then show "\<exists>i. year_pattern_at text i \<and> (\<forall>j<i. \<not> year_pattern_at text j)
      \<and> y = take 4 (drop i text)"
    by (rule exec_year_Some)
next
  assume "\<exists>i. year_pattern_at text i \<and> (\<forall>j<i. \<not> year_pattern_at text j)
      \<and> y = take 4 (drop i text)"
  then obtain i where i: "year_pattern_at text i" "\<forall>j<i. \<not> year_pattern_at text j"
      "y = take 4 (drop i text)"
    by blast
  from i(1) have "exec_year text \<noteq> None" using exec_year_None by blast
  then obtain y' where y': "exec_year text = Some y'" by auto
  then obtain i' where i': "year_pattern_at text i'" "\<forall>j<i'. \<not> year_pattern_at text j"
      "y' = take 4 (drop i' text)"
    using exec_year_Some by blast
  have "i = i'" using i(1,2) i'(1,2) by (meson linorder_neqE_nat)
  with i(3) i'(3) y' show "exec_year text = Some y" by simp
qed

lemma exec_year_absent: "(exec_year text = None) = (\<forall>i. \<not> year_pattern_at text i)"
  using exec_year_None exec_year_Some by (metis not_None_eq)

lemma keepSection_statusFilter:
  "statusFilter st \<noteq> ''all'' \<Longrightarrow>
   keepSection st category section
   = (keepSection (st\<lparr>statusFilter := ''all''\<rparr>) category section
      \<and> extractYear (status section) = Some (statusFilter st))"
  by (auto simp: keepSection_def searchPredicate_def)

text \<open>
  Claim C5. On a string, \<^verbatim>\<open>extractYear\<close> returns the four code units at the leftmost
  position where the pattern "20 followed by two digits" fits, and \<^verbatim>\<open>null\<close> exactly
  when it fits nowhere: "Updated 2023" gives "2023", "TBD" gives \<^verbatim>\<open>null\<close>. With the
  status filter set to a value other than "all", the sections kept are exactly those
  kept without a status filter whose status yields that value.
\<close>

theorem extractYear_leftmost_match:
  "(extractYear (Str text) = Some y
     \<longleftrightarrow> (\<exists>i. year_pattern_at text i \<and> (\<forall>j<i. \<not> year_pattern_at text j)
              \<and> y = take 4 (drop i text)))
   \<and> (extractYear (Str text) = None \<longleftrightarrow> (\<forall>i. \<not> year_pattern_at text i))
   \<and> extractYear (Str ''Updated 2023'') = Some ''2023''
   \<and> extractYear (Str ''TBD'') = None
   \<and> (statusFilter st \<noteq> ''all'' \<longrightarrow>
        sections (filterCategory st category)
        = filter (\<lambda>section. extractYear (status section) = Some (statusFilter st))
            (sections (filterCategory (st\<lparr>statusFilter := ''all''\<rparr>) category)))
   \<and> (statusFilter st \<noteq> ''all'' \<and> category \<in> set (categories st) \<longrightarrow>
        ((filterCategory st category \<in> set (filterData st)
            \<and> section \<in> set (sections (filterCategory st category)))
         \<longleftrightarrow> (section \<in> set (sections category)
              \<and> keepSection (st\<lparr>statusFilter := ''all''\<rparr>) category section
              \<and> extractYear (status section) = Some (statusFilter st))))"
proof (intro conjI impI)
  show "extractYear (Str text) = Some y
     \<longleftrightarrow> (\<exists>i. year_pattern_at text i \<and> (\<forall>j<i. \<not> year_pattern_at text j)
              \<and> y = take 4 (drop i text))"
    by (simp add: extractYear_def exec_year_leftmost)
next
  show "extractYear (Str text) = None \<longleftrightarrow> (\<forall>i. \<not> year_pattern_at text i)"
    by (simp add: extractYear_def exec_year_absent)
next
  show "extractYear (Str ''Updated 2023'') = Some ''2023''" by code_simp
next
  show "extractYear (Str ''TBD'') = None" by code_simp
next
  assume a: "statusFilter st \<noteq> ''all''"
  have "filter (keepSection st category) (sections category)
      = filter (\<lambda>section. keepSection (st\<lparr>statusFilter := ''all''\<rparr>) category section
                  \<and> extractYear (status section) = Some (statusFilter st))
          (sections category)"
    by (rule filter_cong) (auto simp: keepSection_statusFilter [OF a])
  then show "sections (filterCategory st category)
        = filter (\<lambda>section. extractYear (status section) = Some (statusFilter st))
            (sections (filterCategory (st\<lparr>statusFilter := ''all''\<rparr>) category))"
    by simp
next
  assume "statusFilter st \<noteq> ''all'' \<and> category \<in> set (categories st)"
  then have "statusFilter st \<noteq> ''all''" and "category \<in> set (categories st)" by simp_all
  then show "(filterCategory st category \<in> set (filterData st)
            \<and> section \<in> set (sections (filterCategory st category)))
         \<longleftrightarrow> (section \<in> set (sections category)
              \<and> keepSection (st\<lparr>statusFilter := ''all''\<rparr>) category section
              \<and> extractYear (status section) = Some (statusFilter st))"
    by (simp add: section_shown_iff keepSection_statusFilter del: filterCategory_sections)
qed

lemma extractYear_samples:
  "year_pattern_at ''Updated 2023'' 8
   \<and> take 4 (drop 8 ''Updated 2023'') = ''2023''
   \<and> statusFilter (initialState\<lparr>statusFilter := ''2023''\<rparr>) \<noteq> ''all''
   \<and> categoryA \<in> set (categories (initialState\<lparr>statusFilter := ''2023''\<rparr>))
   \<and> map Section.code (sections (filterCategory (initialState\<lparr>statusFilter := ''2023''\<rparr>) categoryA)) = [''A1'']
   \<and> map Section.code (sections (filterCategory (initialState\<lparr>statusFilter := ''2023''\<rparr>) categoryB)) = []"
  by code_simp

theorem extractYear_leftmost_match_witness:
  "extractYear (Str ''Updated 2023'') = Some ''2023''
   \<and> year_pattern_at ''Updated 2023'' 8
   \<and> statusFilter (initialState\<lparr>statusFilter := ''2023''\<rparr>) \<noteq> ''all''
   \<and> categoryA \<in> set (categories (initialState\<lparr>statusFilter := ''2023''\<rparr>))
   \<and> map Section.code (sections (filterCategory (initialState\<lparr>statusFilter := ''2023''\<rparr>) categoryA)) = [''A1'']
   \<and> map Section.code (sections (filterCategory (initialState\<lparr>statusFilter := ''2023''\<rparr>) categoryB)) = []"
  using extractYear_leftmost_match
      [of "''Updated 2023''" "''2023''" "initialState\<lparr>statusFilter := ''2023''\<rparr>" categoryA sectionA1]
    extractYear_samples
  by simp

section \<open>Absent status and the auto-expand policy\<close>

text \<open>
  Claim C10. For an absent status \<^verbatim>\<open>extractYear\<close> returns \<^verbatim>\<open>null\<close>: the default
  parameter makes it scan the empty string. A section without status fails every
  status filter other than "all", so no section of the output lacks a status then.
\<close>

theorem extractYear_absent_status:
  "extractYear Undefined = None
   \<and> (status section = Undefined \<and> statusFilter st \<noteq> ''all'' \<longrightarrow>
        \<not> keepSection st category section)
   \<and> (statusFilter st \<noteq> ''all'' \<and> fc \<in> set (filterData st) \<and> section \<in> set (sections fc) \<longrightarrow>
        status section \<noteq> Undefined)"
proof (intro conjI impI)
  show none: "extractYear Undefined = None" by (simp add: extractYear_def)
  show "\<not> keepSection st category section"
    if "status section = Undefined \<and> statusFilter st \<noteq> ''all''"
    using that none by (simp add: keepSection_def)
  show "status section \<noteq> Undefined"
    if a: "statusFilter st \<noteq> ''all'' \<and> fc \<in> set (filterData st) \<and> section \<in> set (sections fc)"
  proof -
    from a filterData_subset obtain category where "fc = filterCategory st category" by blast
    with a have "keepSection st category section" by simp
    with a none show ?thesis by (auto simp: keepSection_iff)
  qed
qed

lemma extractYear_absent_samples:
  "status sectionA2 = Undefined
   \<and> statusFilter (initialState\<lparr>statusFilter := ''2023''\<rparr>) \<noteq> ''all''
   \<and> filterCategory (initialState\<lparr>statusFilter := ''2023''\<rparr>) categoryA
        \<in> set (filterData (initialState\<lparr>statusFilter := ''2023''\<rparr>))
   \<and> sectionA1 \<in> set (sections (filterCategory (initialState\<lparr>statusFilter := ''2023''\<rparr>) categoryA))
   \<and> sectionA2 \<notin> set (sections (filterCategory (initialState\<lparr>statusFilter := ''2023''\<rparr>) categoryA))"
  by code_simp

theorem extractYear_absent_status_witness:
  "status sectionA2 = Undefined
   \<and> statusFilter (initialState\<lparr>statusFilter := ''2023''\<rparr>) \<noteq> ''all''
   \<and> \<not> keepSection (initialState\<lparr>statusFilter := ''2023''\<rparr>) categoryA sectionA2
   \<and> filterCategory (initialState\<lparr>statusFilter := ''2023''\<rparr>) categoryA
        \<in> set (filterData (initialState\<lparr>statusFilter := ''2023''\<rparr>))
   \<and> sectionA1 \<in> set (sections (filterCategory (initialState\<lparr>statusFilter := ''2023''\<rparr>) categoryA))
   \<and> status sectionA1 \<noteq> Undefined"
  using extractYear_absent_status
      [of sectionA2 "initialState\<lparr>statusFilter := ''2023''\<rparr>" categoryA
        "filterCategory (initialState\<lparr>statusFilter := ''2023''\<rparr>) categoryA"]
    extractYear_absent_status
      [of sectionA1 "initialState\<lparr>statusFilter := ''2023''\<rparr>" categoryA
        "filterCategory (initialState\<lparr>statusFilter := ''2023''\<rparr>) categoryA"]
    extractYear_absent_samples
  by blast

text \<open>
  Claim C7. \<^verbatim>\<open>shouldAutoOpenCategory\<close> decides by the first controlling field that is
  set: a category filter other than "all" opens exactly the category with that code,
  whatever the pinned-only flag, the search string and the pin set hold; otherwise the
  pinned-only flag opens the categories with a pinned section, whatever the search
  string holds; otherwise a non-empty search string opens the categories with a
  section or with the category match flag; otherwise the category stays closed.
\<close>

theorem shouldAutoOpenCategory_precedence:
  "(categoryFilter st \<noteq> ''all'' \<longrightarrow>
      shouldAutoOpenCategory st category = (categoryFilter st = Category.code category))
   \<and> (categoryFilter st = ''all'' \<and> showPinnedOnly st \<longrightarrow>
        shouldAutoOpenCategory st category
        = (\<exists>section \<in> set (sections category).
             sectionKey (Category.code category) (Section.code section) |\<in>| pinned st))
   \<and> (categoryFilter st = ''all'' \<and> \<not> showPinnedOnly st \<and> searchTerm st \<noteq> [] \<longrightarrow>
        shouldAutoOpenCategory st category
        = (sections category \<noteq> [] \<or> categoryMatches category))
   \<and> (categoryFilter st = ''all'' \<and> \<not> showPinnedOnly st \<and> searchTerm st = [] \<longrightarrow>
        \<not> shouldAutoOpenCategory st category)
   \<and> (categoryFilter st \<noteq> ''all'' \<longrightarrow>
        shouldAutoOpenCategory (st\<lparr>showPinnedOnly := b, searchTerm := q, pinned := pins\<rparr>) category
        = shouldAutoOpenCategory st category)
   \<and> (categoryFilter st = ''all'' \<and> showPinnedOnly st \<longrightarrow>
        shouldAutoOpenCategory (st\<lparr>searchTerm := q\<rparr>) category
        = shouldAutoOpenCategory st category)"
  by (simp add: shouldAutoOpenCategory_def list_ex_iff)

lemma shouldAutoOpenCategory_samples:
  "categoryFilter (initialState\<lparr>categoryFilter := ''B'', showPinnedOnly := True\<rparr>) \<noteq> ''all''
   \<and> Category.code (filterCategory pinnedOnlyState categoryA) = ''A''
   \<and> categoryFilter pinnedOnlyState = ''all'' \<and> showPinnedOnly pinnedOnlyState
   \<and> sectionA1 \<in> set (sections (filterCategory pinnedOnlyState categoryA))
   \<and> sectionKey (Category.code (filterCategory pinnedOnlyState categoryA)) (Section.code sectionA1)
        |\<in>| pinned pinnedOnlyState
   \<and> categoryFilter (initialState\<lparr>searchTerm := ''office''\<rparr>) = ''all''
   \<and> \<not> showPinnedOnly (initialState\<lparr>searchTerm := ''office''\<rparr>)
   \<and> searchTerm (initialState\<lparr>searchTerm := ''office''\<rparr>) \<noteq> []
   \<and> sections (filterCategory (initialState\<lparr>searchTerm := ''office''\<rparr>) categoryA) = []
   \<and> categoryMatches (filterCategory (initialState\<lparr>searchTerm := ''office''\<rparr>) categoryA)
   \<and> categoryFilter initialState = ''all'' \<and> \<not> showPinnedOnly initialState
   \<and> searchTerm initialState = []"
  by code_simp

theorem shouldAutoOpenCategory_precedence_witness:
  "\<not> shouldAutoOpenCategory (initialState\<lparr>categoryFilter := ''B'', showPinnedOnly := True\<rparr>)
        (filterCategory pinnedOnlyState categoryA)
   \<and> shouldAutoOpenCategory pinnedOnlyState (filterCategory pinnedOnlyState categoryA)
   \<and> shouldAutoOpenCategory (initialState\<lparr>searchTerm := ''office''\<rparr>)
        (filterCategory (initialState\<lparr>searchTerm := ''office''\<rparr>) categoryA)
   \<and> \<not> shouldAutoOpenCategory initialState (filterCategory initialState categoryA)"
proof -
  note s = shouldAutoOpenCategory_samples
  from shouldAutoOpenCategory_precedence
      [of "initialState\<lparr>categoryFilter := ''B'', showPinnedOnly := True\<rparr>"
        "filterCategory pinnedOnlyState categoryA"] s
  have 1: "\<not> shouldAutoOpenCategory (initialState\<lparr>categoryFilter := ''B'', showPinnedOnly := True\<rparr>)
        (filterCategory pinnedOnlyState categoryA)"
    by (simp add: initialState_def)
  from shouldAutoOpenCategory_precedence
      [of pinnedOnlyState "filterCategory pinnedOnlyState categoryA"] s
  have 2: "shouldAutoOpenCategory pinnedOnlyState (filterCategory pinnedOnlyState categoryA)"
    by blast
  from shouldAutoOpenCategory_precedence
      [of "initialState\<lparr>searchTerm := ''office''\<rparr>"
        "filterCategory (initialState\<lparr>searchTerm := ''office''\<rparr>) categoryA"] s
  have 3: "shouldAutoOpenCategory (initialState\<lparr>searchTerm := ''office''\<rparr>)
        (filterCategory (initialState\<lparr>searchTerm := ''office''\<rparr>) categoryA)"
    by blast
  from shouldAutoOpenCategory_precedence
      [of initialState "filterCategory initialState categoryA"] s
  have 4: "\<not> shouldAutoOpenCategory initialState (filterCategory initialState categoryA)"
    by blast
  from 1 2 3 4 show ?thesis by blast
qed

end
